theory Spec2Isabelle
  imports Main "HOL-Library.Word"
begin

section \<open>The configuration model of the logrange server (server/config.go)\<close>

subsection \<open>Data\<close>

text \<open>
  Modelled from the spec: \<^verbatim>\<open>transport.Config\<close> is declared in package
  \<^verbatim>\<open>range/pkg/transport\<close>, outside this file. The spec gives it as a struct
  holding at least a listen-address string; config.go itself only names the sub-field
  \<^verbatim>\<open>ListenAddr\<close>. The sub-fields it has beyond that are kept as one component
  \<open>Others\<close> of a type \<open>'r\<close> whose Go zero value is \<open>0\<close>.
\<close>

record 'r transport_Config =
  ListenAddr :: string
  Others :: 'r

text \<open>\<^verbatim>\<open>transport.Config{}\<close>: every sub-field at its zero value.\<close>

definition transport_Config_zero :: "'r::zero transport_Config" where
  "transport_Config_zero = \<lparr>ListenAddr = [], Others = 0\<rparr>"

text \<open>
  \<^verbatim>\<open>reflect.DeepEqual(x, transport.Config{})\<close> compares two values of the same struct
  type sub-field by sub-field. Against the zero value (empty strings, nil pointers, nil
  slices) that is structural equality.
\<close>

definition reflect_DeepEqual :: "'r transport_Config \<Rightarrow> 'r transport_Config \<Rightarrow> bool" where
  "reflect_DeepEqual x y = (x = y)"

text \<open>
  The struct \<^verbatim>\<open>Config\<close>. \<^verbatim>\<open>cluster.HostId\<close> is an unsigned integer type declared in
  package \<^verbatim>\<open>range/pkg/cluster\<close>; config.go only compares it with 0 and copies it, so
  it is a \<open>nat\<close>. Go's \<^verbatim>\<open>int\<close> is taken at its 64-bit width (amd64, arm64), read as
  two's complement.
\<close>

type_synonym go_int = "64 word"

record 'r Config =
  JournalsDir :: string
  HostHostId :: nat
  HostLeaseTTLSec :: go_int
  HostRegisterTimeoutSec :: go_int
  PublicApiRpc :: "'r transport_Config"
  PrivateApiRpc :: "'r transport_Config"

text \<open>\<^verbatim>\<open>Config{}\<close> and \<^verbatim>\<open>new(Config)\<close>: the zero value of the struct.\<close>

definition Config_zero :: "'r::zero Config" where
  "Config_zero = \<lparr>JournalsDir = [], HostHostId = 0, HostLeaseTTLSec = 0,
     HostRegisterTimeoutSec = 0, PublicApiRpc = transport_Config_zero,
     PrivateApiRpc = transport_Config_zero\<rparr>"

subsection \<open>Pointers and the heap\<close>

text \<open>
  Every method of config.go works through \<^verbatim>\<open>*Config\<close>. A pointer is \<open>None\<close> (nil) or
  the address of a cell; the heap gives each cell its struct, and \<open>next_free\<close> is the
  address the next allocation returns. Two pointers may hold the same address.
\<close>

type_synonym addr = nat

record 'r heap =
  cells :: "addr \<Rightarrow> 'r Config"
  next_free :: addr

text \<open>
  Error values of the libraries: an error known by its text, or the \<^verbatim>\<open>*os.PathError\<close> of
  a failed file-system call, with the operation, the path and the errno under it.
\<close>

datatype errno = ENOENT | ENOTDIR | EACCES

datatype go_error =
    ErrorString string
  | PathError string string errno

datatype panic =
    NilPointerDereference
  | Wrapf go_error string

text \<open>A statement either panics or yields the next heap.\<close>

definition seq :: "('s \<Rightarrow> panic + 's) \<Rightarrow> ('s \<Rightarrow> panic + 's) \<Rightarrow> 's \<Rightarrow> panic + 's" where
  "seq f g h = (case f h of Inl e \<Rightarrow> Inl e | Inr h' \<Rightarrow> g h')"

text \<open>\<^verbatim>\<open>*p\<close> read: dereferencing nil panics.\<close>

definition load :: "'r heap \<Rightarrow> addr option \<Rightarrow> panic + 'r Config" where
  "load h p = (case p of None \<Rightarrow> Inl NilPointerDereference | Some a \<Rightarrow> Inr (cells h a))"

text \<open>The field update \<open>upd\<close> applied to the cell at address \<open>a\<close>.\<close>

definition assign :: "addr \<Rightarrow> ('r Config \<Rightarrow> 'r Config) \<Rightarrow> 'r heap \<Rightarrow> 'r heap" where
  "assign a upd h = h\<lparr>cells := (cells h)(a := upd (cells h a))\<rparr>"

text \<open>\<^verbatim>\<open>p.F = v\<close> through a pointer: storing through nil panics.\<close>

definition store :: "addr option \<Rightarrow> ('r Config \<Rightarrow> 'r Config) \<Rightarrow> 'r heap \<Rightarrow> panic + 'r heap" where
  "store p upd h = (case p of None \<Rightarrow> Inl NilPointerDereference
     | Some a \<Rightarrow> Inr (assign a upd h))"

text \<open>\<^verbatim>\<open>new(Config)\<close> and \<^verbatim>\<open>&Config{}\<close>: a fresh cell holding the zero value.\<close>

definition new_Config :: "'r::zero heap \<Rightarrow> addr \<times> 'r heap" where
  "new_Config h = (next_free h,
     h\<lparr>cells := (cells h)(next_free h := Config_zero), next_free := Suc (next_free h)\<rparr>)"

subsection \<open>Apply\<close>

text \<open>
  \<^verbatim>\<open>func (c *Config) Apply(cfg *Config)\<close>, statement by statement. Each guard reads
  \<^verbatim>\<open>cfg\<close> from the heap as it is at that point, so that \<^verbatim>\<open>c\<close> and \<^verbatim>\<open>cfg\<close> may alias.
\<close>

definition Apply :: "'r::zero heap \<Rightarrow> addr option \<Rightarrow> addr option \<Rightarrow> panic + 'r heap" where
  "Apply h c cfg = (case cfg of None \<Rightarrow> Inr h | Some s \<Rightarrow>
     seq (\<lambda>h. if length (JournalsDir (cells h s)) > 0
               then store c (\<lambda>d. d\<lparr>JournalsDir := JournalsDir (cells h s)\<rparr>) h else Inr h)
    (seq (\<lambda>h. if HostHostId (cells h s) > 0
               then store c (\<lambda>d. d\<lparr>HostHostId := HostHostId (cells h s)\<rparr>) h else Inr h)
    (seq (\<lambda>h. if \<not> reflect_DeepEqual (PublicApiRpc (cells h s)) transport_Config_zero
               then store c (\<lambda>d. d\<lparr>PublicApiRpc := PublicApiRpc (cells h s)\<rparr>) h else Inr h)
    (seq (\<lambda>h. if \<not> reflect_DeepEqual (PrivateApiRpc (cells h s)) transport_Config_zero
               then store c (\<lambda>d. d\<lparr>PrivateApiRpc := PrivateApiRpc (cells h s)\<rparr>) h else Inr h)
    (seq (\<lambda>h. if 0 <s HostLeaseTTLSec (cells h s)
               then store c (\<lambda>d. d\<lparr>HostLeaseTTLSec := HostLeaseTTLSec (cells h s)\<rparr>) h else Inr h)
         (\<lambda>h. if 0 <s HostRegisterTimeoutSec (cells h s)
               then store c (\<lambda>d. d\<lparr>HostRegisterTimeoutSec := HostRegisterTimeoutSec (cells h s)\<rparr>) h
               else Inr h))))) h)"

subsection \<open>The default factory\<close>

definition GetDefaultConfig :: "'r::zero heap \<Rightarrow> addr option \<times> 'r heap" where
  "GetDefaultConfig h = (case new_Config h of (c, h0) \<Rightarrow>
     let h1 = assign c (\<lambda>d. d\<lparr>JournalsDir := ''/opt/logrange/db/''\<rparr>) h0;
         h2 = assign c (\<lambda>d. d\<lparr>PublicApiRpc := (PublicApiRpc d)\<lparr>ListenAddr := ''127.0.0.1:9966''\<rparr>\<rparr>) h1;
         h3 = assign c (\<lambda>d. d\<lparr>PrivateApiRpc := (PrivateApiRpc d)\<lparr>ListenAddr := ''127.0.0.1:9967''\<rparr>\<rparr>) h2;
         h4 = assign c (\<lambda>d. d\<lparr>HostLeaseTTLSec := 5\<rparr>) h3
     in (Some c, h4))"

subsection \<open>The accessors of model.HostRegistryConfig\<close>

text \<open>
  \<^verbatim>\<open>model.HostInfo\<close> is built by a composite literal that names \<^verbatim>\<open>RpcAddr\<close> only;
  \<^verbatim>\<open>cluster.HostAddr\<close> is a string type. \<^verbatim>\<open>time.Duration\<close> is an \<^verbatim>\<open>int64\<close> count of
  nanoseconds and \<^verbatim>\<open>time.Second\<close> is 1000000000; the product wraps.
\<close>

record HostInfo =
  RpcAddr :: string

type_synonym time_Duration = "64 word"

definition time_Second :: time_Duration where
  "time_Second = 1000000000"

definition HostId :: "'r heap \<Rightarrow> addr option \<Rightarrow> panic + nat" where
  "HostId h c = (case load h c of Inl e \<Rightarrow> Inl e | Inr d \<Rightarrow> Inr (HostHostId d))"

definition Localhost :: "'r heap \<Rightarrow> addr option \<Rightarrow> panic + HostInfo" where
  "Localhost h c = (case load h c of Inl e \<Rightarrow> Inl e
     | Inr d \<Rightarrow> Inr \<lparr>RpcAddr = ListenAddr (PrivateApiRpc d)\<rparr>)"

definition LeaseTTL :: "'r heap \<Rightarrow> addr option \<Rightarrow> panic + time_Duration" where
  "LeaseTTL h c = (case load h c of Inl e \<Rightarrow> Inl e
     | Inr d \<Rightarrow> Inr (HostLeaseTTLSec d * time_Second))"

definition RegisterTimeout :: "'r heap \<Rightarrow> addr option \<Rightarrow> panic + time_Duration" where
  "RegisterTimeout h c = (case load h c of Inl e \<Rightarrow> Inl e
     | Inr d \<Rightarrow> Inr (HostRegisterTimeoutSec d * time_Second))"

subsection \<open>The file loader\<close>

text \<open>
  The file system, the JSON decoder and the logger are outside the repository. The
  environment gives what the calls the loader makes return: \<^verbatim>\<open>os.Stat\<close> its error (\<open>None\<close>
  is nil), \<^verbatim>\<open>os.IsNotExist\<close> its verdict on that error, \<^verbatim>\<open>ioutil.ReadFile\<close> the bytes and
  the error, \<^verbatim>\<open>json.Unmarshal\<close> the struct as it leaves it and the error. The loader's calls
  on the file system and on the logger \<^verbatim>\<open>configLog\<close> are recorded, in order, as events; a
  logger call only emits its event.
\<close>

type_synonym bytes = "8 word list"

record 'r env =
  os_Stat :: "string \<Rightarrow> go_error option"
  os_IsNotExist :: "go_error option \<Rightarrow> bool"
  ioutil_ReadFile :: "string \<Rightarrow> bytes \<times> go_error option"
  json_Unmarshal :: "bytes \<Rightarrow> 'r Config \<Rightarrow> 'r Config \<times> go_error option"

datatype logarg = Str string | Err go_error

datatype event =
    Stat string
  | ReadFile string
  | Warn "logarg list"
  | Fatal "logarg list"
  | Info "logarg list"

definition ReadConfigFromFile ::
  "'r::zero env \<Rightarrow> string \<Rightarrow> 'r heap \<Rightarrow> (panic + addr option) \<times> event list \<times> 'r heap" where
  "ReadConfigFromFile env filename h =
    (if filename = [] then (Inr None, [], h)
     else if os_IsNotExist env (os_Stat env filename) then
       (Inr None,
        [Stat filename,
         Warn [Str ''There is no file '', Str filename,
               Str '' for reading logrange config, will use default configuration.'']],
        h)
     else (case ioutil_ReadFile env filename of (cfgData, err) \<Rightarrow>
       (case err of
          Some e \<Rightarrow>
            (Inl (Wrapf e (''Could not read data from config file '' @ filename)),
             [Stat filename, ReadFile filename,
              Fatal [Str ''Could not read configuration file '', Str filename, Str '': '', Err e]],
             h)
        | None \<Rightarrow>
            (case new_Config h of (c, h0) \<Rightarrow>
              (case json_Unmarshal env cfgData (cells h0 c) of (v, err) \<Rightarrow>
                 let h1 = assign c (\<lambda>_. v) h0 in
                 (case err of
                    Some e \<Rightarrow>
                      (Inl (Wrapf e (''Could not unmarshal json data from config file '' @ filename)),
                       [Stat filename, ReadFile filename,
                        Fatal [Str ''Could not unmarshal data from '', Str filename,
                               Str '', err='', Err e]],
                       h1)
                  | None \<Rightarrow>
                      (Inr (Some c),
                       [Stat filename, ReadFile filename,
                        Info [Str ''Configuration read from '', Str filename]],
                       h1)))))))"

subsection \<open>The file system under the loader\<close>

text \<open>
  What a path names decides what the calls of package \<^verbatim>\<open>os\<close> return. A path names
  nothing when its directory has no such entry (\<open>NoEntry\<close>) and when a component of its
  prefix is a regular file (\<open>UnderNonDirectory\<close>); it names a file that cannot be opened
  (\<open>Unreadable\<close>) or a file with its bytes (\<open>Holds\<close>). \<^verbatim>\<open>os.Stat\<close> and \<^verbatim>\<open>ioutil.ReadFile\<close>
  fail with \<^verbatim>\<open>ENOENT\<close> on the first, with \<^verbatim>\<open>ENOTDIR\<close> on the second; \<^verbatim>\<open>os.IsNotExist\<close> holds
  of an error whose errno is \<^verbatim>\<open>ENOENT\<close> and of no other. \<open>os_env\<close> is the environment such
  a file system gives the loader, with the decoder \<open>dec\<close>.
\<close>

datatype path_status =
    NoEntry
  | UnderNonDirectory
  | Unreadable
  | Holds bytes

definition path_exists :: "(string \<Rightarrow> path_status) \<Rightarrow> string \<Rightarrow> bool" where
  "path_exists fs p =
     (case fs p of NoEntry \<Rightarrow> False | UnderNonDirectory \<Rightarrow> False
      | Unreadable \<Rightarrow> True | Holds b \<Rightarrow> True)"

definition IsNotExist :: "go_error option \<Rightarrow> bool" where
  "IsNotExist err =
     (case err of None \<Rightarrow> False
      | Some (ErrorString m) \<Rightarrow> False
      | Some (PathError op p n) \<Rightarrow> n = ENOENT)"

definition os_env ::
  "(string \<Rightarrow> path_status) \<Rightarrow> (bytes \<Rightarrow> 'r Config \<Rightarrow> 'r Config \<times> go_error option) \<Rightarrow> 'r env" where
  "os_env fs dec = \<lparr>
     os_Stat = (\<lambda>p. case fs p of
         NoEntry \<Rightarrow> Some (PathError ''stat'' p ENOENT)
       | UnderNonDirectory \<Rightarrow> Some (PathError ''stat'' p ENOTDIR)
       | Unreadable \<Rightarrow> None
       | Holds b \<Rightarrow> None),
     os_IsNotExist = IsNotExist,
     ioutil_ReadFile = (\<lambda>p. case fs p of
         NoEntry \<Rightarrow> ([], Some (PathError ''open'' p ENOENT))
       | UnderNonDirectory \<Rightarrow> ([], Some (PathError ''open'' p ENOTDIR))
       | Unreadable \<Rightarrow> ([], Some (PathError ''open'' p EACCES))
       | Holds b \<Rightarrow> (b, None)),
     json_Unmarshal = dec\<rparr>"

subsection \<open>The merge of the spec\<close>

text \<open>
  The spec's words for \<^verbatim>\<open>Apply\<close> (section 4.3), on struct values: every field of the
  source that is set replaces the destination's field, a field that is not set leaves it.
  A string is set when its length is above 0, an integer when it is above 0, a transport
  struct when it differs from the all-zero struct. \<open>Apply\<close> above is the code; it is
  compared with this function in \<open>Apply_refines_merge\<close>.
\<close>

definition merge :: "'r::zero Config \<Rightarrow> 'r Config \<Rightarrow> 'r Config" where
  "merge d s =
     \<lparr>JournalsDir = (if length (JournalsDir s) > 0 then JournalsDir s else JournalsDir d),
      HostHostId = (if HostHostId s > 0 then HostHostId s else HostHostId d),
      HostLeaseTTLSec = (if 0 <s HostLeaseTTLSec s then HostLeaseTTLSec s else HostLeaseTTLSec d),
      HostRegisterTimeoutSec =
        (if 0 <s HostRegisterTimeoutSec s then HostRegisterTimeoutSec s else HostRegisterTimeoutSec d),
      PublicApiRpc =
        (if PublicApiRpc s \<noteq> transport_Config_zero then PublicApiRpc s else PublicApiRpc d),
      PrivateApiRpc =
        (if PrivateApiRpc s \<noteq> transport_Config_zero then PrivateApiRpc s else PrivateApiRpc d)\<rparr>"

subsection \<open>Concrete configurations\<close>

text \<open>
  A heap for the examples, its transport structs with one more numeric sub-field: cell 0
  holds the default configuration, cells 1 to 4 a source with one scalar field set, cell 5
  a source with a negative lease, cell 6 a source whose public transport struct has only
  its other sub-field set, cell 7 an all-zero source, cell 8 a configuration with both
  listen addresses, cell 9 a source with a lease of 9223372037 seconds.
\<close>

definition ex_default :: "nat Config" where
  "ex_default = \<lparr>JournalsDir = ''/opt/logrange/db/'', HostHostId = 0, HostLeaseTTLSec = 5,
     HostRegisterTimeoutSec = 0,
     PublicApiRpc = \<lparr>ListenAddr = ''127.0.0.1:9966'', Others = 0\<rparr>,
     PrivateApiRpc = \<lparr>ListenAddr = ''127.0.0.1:9967'', Others = 0\<rparr>\<rparr>"

definition ex_heap :: "nat heap" where
  "ex_heap = \<lparr>cells = (\<lambda>_. Config_zero)
       (0 := ex_default,
        1 := Config_zero\<lparr>JournalsDir := ''/var/data''\<rparr>,
        2 := Config_zero\<lparr>HostHostId := 7\<rparr>,
        3 := Config_zero\<lparr>HostLeaseTTLSec := 30\<rparr>,
        4 := Config_zero\<lparr>HostRegisterTimeoutSec := 60\<rparr>,
        5 := Config_zero\<lparr>HostLeaseTTLSec := - 5\<rparr>,
        6 := Config_zero\<lparr>PublicApiRpc := \<lparr>ListenAddr = [], Others = 1\<rparr>\<rparr>,
        8 := Config_zero\<lparr>PublicApiRpc := \<lparr>ListenAddr = ''10.0.0.1:9966'', Others = 0\<rparr>,
                         PrivateApiRpc := \<lparr>ListenAddr = ''10.0.0.1:9967'', Others = 0\<rparr>\<rparr>,
        9 := Config_zero\<lparr>HostLeaseTTLSec := 9223372037\<rparr>),
     next_free = 10\<rparr>"

text \<open>
  A file system in which \<^verbatim>\<open>missing.json\<close> does not exist, \<^verbatim>\<open>locked.json\<close> cannot be
  read, and every other file holds the one byte \<^verbatim>\<open>{\<close>, which the decoder rejects.
\<close>

definition ex_env :: "nat env" where
  "ex_env = \<lparr>
     os_Stat = (\<lambda>p. if p = ''missing.json''
        then Some (ErrorString ''stat missing.json: no such file or directory'') else None),
     os_IsNotExist = (\<lambda>e. e = Some (ErrorString ''stat missing.json: no such file or directory'')),
     ioutil_ReadFile = (\<lambda>p. if p = ''locked.json''
        then ([], Some (ErrorString ''open locked.json: permission denied'')) else ([123], None)),
     json_Unmarshal = (\<lambda>b c. (c, Some (ErrorString ''unexpected end of JSON input'')))\<rparr>"

text \<open>
  A file system in which \<^verbatim>\<open>broken.json\<close> is a regular file of one byte, so that
  \<^verbatim>\<open>broken.json/child\<close> names nothing, \<^verbatim>\<open>locked.json\<close> cannot be opened, and no other
  path has an entry.
\<close>

definition ex_fs :: "string \<Rightarrow> path_status" where
  "ex_fs p =
     (if p = ''broken.json'' then Holds [123]
      else if p = ''broken.json/child'' then UnderNonDirectory
      else if p = ''locked.json'' then Unreadable
      else NoEntry)"

section \<open>Apply against the merge of the spec\<close>

lemma assign_id: "upd (cells h a) = cells h a \<Longrightarrow> assign a upd h = h"
  by (simp add: assign_def)

lemma store_self: "upd (cells h s) = cells h s \<Longrightarrow> store (Some s) upd h = Inr h"
  by (simp add: store_def assign_id)

lemma seq_guarded_self:
  "U h (cells h s) = cells h s \<Longrightarrow>
   seq (\<lambda>h. if G h then store (Some s) (U h) h else Inr h) k h = k h"
  by (simp add: seq_def store_self)

lemma merge_self: "merge d d = d"
  by (simp add: merge_def)

lemma merge_idem: "merge (merge d s) s = merge d s"
  by (simp add: merge_def)

lemma merge_zero: "merge d Config_zero = d"
  by (simp add: merge_def Config_zero_def)

lemma Apply_nil: "Apply h c None = Inr h"
  by (simp add: Apply_def)

lemma Apply_alias: "Apply h (Some s) (Some s) = Inr h"
  by (simp add: Apply_def seq_guarded_self store_self)

lemma guarded_store:
  "(if g then store (Some c) upd h else Inr h) = Inr (assign c (\<lambda>d. if g then upd d else d) h)"
  by (simp add: store_def assign_id)

lemma seq_Inr_fun: "seq (\<lambda>h. Inr (F h)) k h = k (F h)"
  by (simp add: seq_def)

lemma cells_assign: "cells (assign c upd h) a = (if a = c then upd (cells h c) else cells h a)"
  by (simp add: assign_def)

lemma assign_assign: "assign c f (assign c g h) = assign c (\<lambda>d. f (g d)) h"
  by (simp add: assign_def)

lemma guarded_update:
  "(if g then d\<lparr>JournalsDir := j\<rparr> else d) = JournalsDir_update (\<lambda>x. if g then j else x) d"
  "(if g then d\<lparr>HostHostId := i\<rparr> else d) = HostHostId_update (\<lambda>x. if g then i else x) d"
  "(if g then d\<lparr>PublicApiRpc := t\<rparr> else d) = PublicApiRpc_update (\<lambda>x. if g then t else x) d"
  "(if g then d\<lparr>PrivateApiRpc := t\<rparr> else d) = PrivateApiRpc_update (\<lambda>x. if g then t else x) d"
  "(if g then d\<lparr>HostLeaseTTLSec := n\<rparr> else d) = HostLeaseTTLSec_update (\<lambda>x. if g then n else x) d"
  "(if g then d\<lparr>HostRegisterTimeoutSec := n\<rparr> else d)
     = HostRegisterTimeoutSec_update (\<lambda>x. if g then n else x) d"
  by simp_all

lemma merge_updates:
  "merge d s =
     HostRegisterTimeoutSec_update
       (\<lambda>x. if 0 <s HostRegisterTimeoutSec s then HostRegisterTimeoutSec s else x)
    (HostLeaseTTLSec_update (\<lambda>x. if 0 <s HostLeaseTTLSec s then HostLeaseTTLSec s else x)
    (PrivateApiRpc_update (\<lambda>x. if PrivateApiRpc s \<noteq> transport_Config_zero then PrivateApiRpc s else x)
    (PublicApiRpc_update (\<lambda>x. if PublicApiRpc s \<noteq> transport_Config_zero then PublicApiRpc s else x)
    (HostHostId_update (\<lambda>x. if 0 < HostHostId s then HostHostId s else x)
    (JournalsDir_update (\<lambda>x. if 0 < length (JournalsDir s) then JournalsDir s else x) d)))))"
  by (rule Config.equality) (simp_all add: merge_def)

lemma Apply_distinct:
  assumes "c \<noteq> s"
  shows "Apply h (Some c) (Some s) = Inr (assign c (\<lambda>d. merge d (cells h s)) h)"
proof -
  have src: "\<And>upd h'. cells (assign c upd h') s = cells h' s"
    using assms by (simp add: cells_assign)
  show ?thesis
    by (simp only: Apply_def option.case guarded_store seq_Inr_fun reflect_DeepEqual_def
          src guarded_update assign_assign merge_updates)
qed

lemma Apply_refines_merge:
  "Apply h (Some c) (Some s) = Inr (assign c (\<lambda>d. merge d (cells h s)) h)"
  by (cases "c = s") (simp_all add: Apply_alias Apply_distinct assign_id merge_self)

lemma Apply_source_kept:
  "cells (assign c (\<lambda>d. merge d (cells h s)) h) s = cells h s"
  by (simp add: cells_assign merge_self)

lemma merge_only:
  "0 < length (JournalsDir s) \<Longrightarrow> HostHostId s = 0 \<Longrightarrow> HostLeaseTTLSec s = 0 \<Longrightarrow>
   HostRegisterTimeoutSec s = 0 \<Longrightarrow> PublicApiRpc s = transport_Config_zero \<Longrightarrow>
   PrivateApiRpc s = transport_Config_zero \<Longrightarrow> merge d s = d\<lparr>JournalsDir := JournalsDir s\<rparr>"
  "JournalsDir s = [] \<Longrightarrow> 0 < HostHostId s \<Longrightarrow> HostLeaseTTLSec s = 0 \<Longrightarrow>
   HostRegisterTimeoutSec s = 0 \<Longrightarrow> PublicApiRpc s = transport_Config_zero \<Longrightarrow>
   PrivateApiRpc s = transport_Config_zero \<Longrightarrow> merge d s = d\<lparr>HostHostId := HostHostId s\<rparr>"
  "JournalsDir s = [] \<Longrightarrow> HostHostId s = 0 \<Longrightarrow> 0 <s HostLeaseTTLSec s \<Longrightarrow>
   HostRegisterTimeoutSec s = 0 \<Longrightarrow> PublicApiRpc s = transport_Config_zero \<Longrightarrow>
   PrivateApiRpc s = transport_Config_zero \<Longrightarrow> merge d s = d\<lparr>HostLeaseTTLSec := HostLeaseTTLSec s\<rparr>"
  "JournalsDir s = [] \<Longrightarrow> HostHostId s = 0 \<Longrightarrow> HostLeaseTTLSec s = 0 \<Longrightarrow>
   0 <s HostRegisterTimeoutSec s \<Longrightarrow> PublicApiRpc s = transport_Config_zero \<Longrightarrow>
   PrivateApiRpc s = transport_Config_zero \<Longrightarrow>
   merge d s = d\<lparr>HostRegisterTimeoutSec := HostRegisterTimeoutSec s\<rparr>"
  by (rule Config.equality; simp add: merge_def)+

lemma GetDefaultConfig_eq:
  "GetDefaultConfig h = (Some (next_free h),
     h\<lparr>cells := (cells h)(next_free h :=
          \<lparr>JournalsDir = ''/opt/logrange/db/'', HostHostId = 0, HostLeaseTTLSec = 5,
           HostRegisterTimeoutSec = 0,
           PublicApiRpc = \<lparr>ListenAddr = ''127.0.0.1:9966'', Others = 0\<rparr>,
           PrivateApiRpc = \<lparr>ListenAddr = ''127.0.0.1:9967'', Others = 0\<rparr>\<rparr>),
       next_free := Suc (next_free h)\<rparr>)"
  by (simp add: GetDefaultConfig_def new_Config_def assign_def Config_zero_def
        transport_Config_zero_def)

text \<open>
  The product with \<^verbatim>\<open>time.Second\<close> is the number of seconds, read as a signed count of
  nanoseconds, exactly when the seconds lie within 9223372036 of zero: beyond that the
  64-bit product wraps.
\<close>

lemma sint_seconds:
  fixes x :: go_int
  shows "sint (x * time_Second) = sint x * 1000000000
           \<longleftrightarrow> - 9223372036 \<le> sint x \<and> sint x \<le> 9223372036"
proof -
  have "sint (x * time_Second) = signed_take_bit 63 (sint x * 1000000000)"
    by (simp add: time_Second_def sint_word_ariths)
  moreover have "signed_take_bit 63 (sint x * 1000000000) = sint x * 1000000000
      \<longleftrightarrow> - 9223372036 \<le> sint x \<and> sint x \<le> 9223372036"
    by (simp add: signed_take_bit_int_eq_self_iff) arith
  ultimately show ?thesis
    by simp
qed

text \<open>
  The loader on the paths that give no configuration: the empty path, without any call;
  a path of which \<^verbatim>\<open>os.IsNotExist\<close> holds after \<^verbatim>\<open>os.Stat\<close>, with a warning.
\<close>

lemma ReadConfigFromFile_nil:
  "ReadConfigFromFile env [] h = (Inr None, [], h)"
  "filename \<noteq> [] \<Longrightarrow> os_IsNotExist env (os_Stat env filename) \<Longrightarrow>
     ReadConfigFromFile env filename h =
       (Inr None,
        [Stat filename,
         Warn [Str ''There is no file '', Str filename,
               Str '' for reading logrange config, will use default configuration.'']],
        h)"
  by (simp_all add: ReadConfigFromFile_def)

text \<open>
  Over a file system, a path that names nothing gives nil only when its directory has no
  such entry; under a regular file it makes the loader panic.
\<close>

lemma ReadConfigFromFile_os_env:
  "filename \<noteq> [] \<Longrightarrow> fs filename = NoEntry \<Longrightarrow>
     ReadConfigFromFile (os_env fs dec) filename h =
       (Inr None,
        [Stat filename,
         Warn [Str ''There is no file '', Str filename,
               Str '' for reading logrange config, will use default configuration.'']],
        h)"
  "filename \<noteq> [] \<Longrightarrow> fs filename = UnderNonDirectory \<Longrightarrow>
     ReadConfigFromFile (os_env fs dec) filename h =
       (Inl (Wrapf (PathError ''open'' filename ENOTDIR)
               (''Could not read data from config file '' @ filename)),
        [Stat filename, ReadFile filename,
         Fatal [Str ''Could not read configuration file '', Str filename, Str '': '',
                Err (PathError ''open'' filename ENOTDIR)]],
        h)"
  by (simp_all add: ReadConfigFromFile_def os_env_def IsNotExist_def)

section \<open>The claims\<close>

text \<open>
  C1, as amended. A source in which exactly one scalar field is set, a non-empty
  \<open>JournalsDir\<close> or a \<open>HostHostId\<close>, \<open>HostLeaseTTLSec\<close> or \<open>HostRegisterTimeoutSec\<close>
  above 0, every other field of it zero, both transport structs included: \<open>Apply\<close>
  returns the heap in which the destination has that one field at the source's value and
  nothing else has changed. In general the string field of the destination is overridden
  iff the source's length is above 0, and each integer field iff the source's value is
  above 0. The claim as written asks for a non-zero field; a negative integer is non-zero
  and overrides nothing.
\<close>

theorem Apply_single_scalar_field:
  "(0 < length (JournalsDir (cells h s)) \<and> HostHostId (cells h s) = 0 \<and>
    HostLeaseTTLSec (cells h s) = 0 \<and> HostRegisterTimeoutSec (cells h s) = 0 \<and>
    PublicApiRpc (cells h s) = transport_Config_zero \<and>
    PrivateApiRpc (cells h s) = transport_Config_zero \<longrightarrow>
      Apply h (Some c) (Some s)
        = Inr (assign c (\<lambda>d. d\<lparr>JournalsDir := JournalsDir (cells h s)\<rparr>) h)) \<and>
   (JournalsDir (cells h s) = [] \<and> 0 < HostHostId (cells h s) \<and>
    HostLeaseTTLSec (cells h s) = 0 \<and> HostRegisterTimeoutSec (cells h s) = 0 \<and>
    PublicApiRpc (cells h s) = transport_Config_zero \<and>
    PrivateApiRpc (cells h s) = transport_Config_zero \<longrightarrow>
      Apply h (Some c) (Some s)
        = Inr (assign c (\<lambda>d. d\<lparr>HostHostId := HostHostId (cells h s)\<rparr>) h)) \<and>
   (JournalsDir (cells h s) = [] \<and> HostHostId (cells h s) = 0 \<and>
    0 <s HostLeaseTTLSec (cells h s) \<and> HostRegisterTimeoutSec (cells h s) = 0 \<and>
    PublicApiRpc (cells h s) = transport_Config_zero \<and>
    PrivateApiRpc (cells h s) = transport_Config_zero \<longrightarrow>
      Apply h (Some c) (Some s)
        = Inr (assign c (\<lambda>d. d\<lparr>HostLeaseTTLSec := HostLeaseTTLSec (cells h s)\<rparr>) h)) \<and>
   (JournalsDir (cells h s) = [] \<and> HostHostId (cells h s) = 0 \<and>
    HostLeaseTTLSec (cells h s) = 0 \<and> 0 <s HostRegisterTimeoutSec (cells h s) \<and>
    PublicApiRpc (cells h s) = transport_Config_zero \<and>
    PrivateApiRpc (cells h s) = transport_Config_zero \<longrightarrow>
      Apply h (Some c) (Some s)
        = Inr (assign c (\<lambda>d. d\<lparr>HostRegisterTimeoutSec := HostRegisterTimeoutSec (cells h s)\<rparr>) h)) \<and>
   (\<exists>h'. Apply h (Some c) (Some s) = Inr h' \<and>
      JournalsDir (cells h' c) =
        (if 0 < length (JournalsDir (cells h s)) then JournalsDir (cells h s)
         else JournalsDir (cells h c)) \<and>
      HostHostId (cells h' c) =
        (if 0 < HostHostId (cells h s) then HostHostId (cells h s) else HostHostId (cells h c)) \<and>
      HostLeaseTTLSec (cells h' c) =
        (if 0 <s HostLeaseTTLSec (cells h s) then HostLeaseTTLSec (cells h s)
         else HostLeaseTTLSec (cells h c)) \<and>
      HostRegisterTimeoutSec (cells h' c) =
        (if 0 <s HostRegisterTimeoutSec (cells h s) then HostRegisterTimeoutSec (cells h s)
         else HostRegisterTimeoutSec (cells h c)))"
proof -
  have fields: "\<exists>h'. Apply h (Some c) (Some s) = Inr h' \<and>
      JournalsDir (cells h' c) =
        (if 0 < length (JournalsDir (cells h s)) then JournalsDir (cells h s)
         else JournalsDir (cells h c)) \<and>
      HostHostId (cells h' c) =
        (if 0 < HostHostId (cells h s) then HostHostId (cells h s) else HostHostId (cells h c)) \<and>
      HostLeaseTTLSec (cells h' c) =
        (if 0 <s HostLeaseTTLSec (cells h s) then HostLeaseTTLSec (cells h s)
         else HostLeaseTTLSec (cells h c)) \<and>
      HostRegisterTimeoutSec (cells h' c) =
        (if 0 <s HostRegisterTimeoutSec (cells h s) then HostRegisterTimeoutSec (cells h s)
         else HostRegisterTimeoutSec (cells h c))"
    by (simp add: Apply_refines_merge cells_assign merge_def)
  show ?thesis
    by (intro conjI impI fields) (simp_all only: Apply_refines_merge merge_only)
qed

text \<open>
  The theorem at the sources of cells 1 to 4, each applied to the default configuration
  of cell 0.
\<close>

theorem Apply_single_scalar_field_witness:
  "(\<exists>h'. Apply ex_heap (Some 0) (Some 1) = Inr h' \<and>
      cells h' 0 = ex_default\<lparr>JournalsDir := ''/var/data''\<rparr>) \<and>
   (\<exists>h'. Apply ex_heap (Some 0) (Some 2) = Inr h' \<and>
      cells h' 0 = ex_default\<lparr>HostHostId := 7\<rparr>) \<and>
   (\<exists>h'. Apply ex_heap (Some 0) (Some 3) = Inr h' \<and>
      cells h' 0 = ex_default\<lparr>HostLeaseTTLSec := 30\<rparr>) \<and>
   (\<exists>h'. Apply ex_heap (Some 0) (Some 4) = Inr h' \<and>
      cells h' 0 = ex_default\<lparr>HostRegisterTimeoutSec := 60\<rparr>)"
proof -
  have "Apply ex_heap (Some 0) (Some 1)
          = Inr (assign 0 (\<lambda>d. d\<lparr>JournalsDir := JournalsDir (cells ex_heap 1)\<rparr>) ex_heap)"
    using Apply_single_scalar_field [of ex_heap 1 0]
    by (simp add: ex_heap_def Config_zero_def)
  moreover have "Apply ex_heap (Some 0) (Some 2)
          = Inr (assign 0 (\<lambda>d. d\<lparr>HostHostId := HostHostId (cells ex_heap 2)\<rparr>) ex_heap)"
    using Apply_single_scalar_field [of ex_heap 2 0]
    by (simp add: ex_heap_def Config_zero_def)
  moreover have "Apply ex_heap (Some 0) (Some 3)
          = Inr (assign 0 (\<lambda>d. d\<lparr>HostLeaseTTLSec := HostLeaseTTLSec (cells ex_heap 3)\<rparr>) ex_heap)"
    using Apply_single_scalar_field [of ex_heap 3 0]
    by (simp add: ex_heap_def Config_zero_def word_sless_alt)
  moreover have "Apply ex_heap (Some 0) (Some 4)
          = Inr (assign 0 (\<lambda>d. d\<lparr>HostRegisterTimeoutSec := HostRegisterTimeoutSec (cells ex_heap 4)\<rparr>)
                  ex_heap)"
    using Apply_single_scalar_field [of ex_heap 4 0]
    by (simp add: ex_heap_def Config_zero_def word_sless_alt)
  ultimately show ?thesis
    by (simp add: cells_assign) (simp add: ex_heap_def Config_zero_def)
qed

text \<open>
  The claim as written fails at the source of cell 5: its only non-zero scalar field is
  \<open>HostLeaseTTLSec = -5\<close>, and \<open>Apply\<close> leaves the heap as it was, the destination's
  lease still 5.
\<close>

theorem Apply_single_scalar_field_counterexample:
  "JournalsDir (cells ex_heap 5) = [] \<and> HostHostId (cells ex_heap 5) = 0 \<and>
   HostLeaseTTLSec (cells ex_heap 5) = - 5 \<and> HostLeaseTTLSec (cells ex_heap 5) \<noteq> 0 \<and>
   HostRegisterTimeoutSec (cells ex_heap 5) = 0 \<and>
   PublicApiRpc (cells ex_heap 5) = transport_Config_zero \<and>
   PrivateApiRpc (cells ex_heap 5) = transport_Config_zero \<and>
   Apply ex_heap (Some 0) (Some 5) = Inr ex_heap \<and>
   HostLeaseTTLSec (cells ex_heap 0) = 5 \<and>
   HostLeaseTTLSec (cells ex_heap 0) \<noteq> HostLeaseTTLSec (cells ex_heap 5)"
proof -
  have "merge (cells ex_heap 0) (cells ex_heap 5) = cells ex_heap 0"
    by (simp add: merge_def ex_heap_def ex_default_def Config_zero_def word_sless_alt)
  then have "Apply ex_heap (Some 0) (Some 5) = Inr ex_heap"
    by (simp add: Apply_refines_merge assign_id)
  then show ?thesis
    by (simp add: ex_heap_def ex_default_def Config_zero_def)
qed

text \<open>
  C2. \<open>Apply\<close> replaces the destination's \<open>PublicApiRpc\<close> by the source's whole struct
  when the source's struct is not deep-equal to the all-zero struct, and leaves it
  untouched when it is; the same for \<open>PrivateApiRpc\<close>. No sub-field is merged.
\<close>

theorem Apply_transport_whole_struct:
  "\<exists>h'. Apply h (Some c) (Some s) = Inr h' \<and>
     PublicApiRpc (cells h' c) =
       (if \<not> reflect_DeepEqual (PublicApiRpc (cells h s)) transport_Config_zero
        then PublicApiRpc (cells h s) else PublicApiRpc (cells h c)) \<and>
     PrivateApiRpc (cells h' c) =
       (if \<not> reflect_DeepEqual (PrivateApiRpc (cells h s)) transport_Config_zero
        then PrivateApiRpc (cells h s) else PrivateApiRpc (cells h c))"
  by (simp add: Apply_refines_merge cells_assign merge_def reflect_DeepEqual_def)

text \<open>
  The source of cell 6 sets one sub-field of its public struct and no listen address: the
  destination's public listen address is gone after \<open>Apply\<close>, its private struct is kept.
\<close>

theorem Apply_transport_whole_struct_witness:
  "PublicApiRpc (cells ex_heap 0) = \<lparr>ListenAddr = ''127.0.0.1:9966'', Others = 0\<rparr> \<and>
   PublicApiRpc (cells ex_heap 6) = \<lparr>ListenAddr = [], Others = 1\<rparr> \<and>
   PrivateApiRpc (cells ex_heap 6) = transport_Config_zero \<and>
   (\<exists>h'. Apply ex_heap (Some 0) (Some 6) = Inr h' \<and>
      PublicApiRpc (cells h' 0) = \<lparr>ListenAddr = [], Others = 1\<rparr> \<and>
      PrivateApiRpc (cells h' 0) = \<lparr>ListenAddr = ''127.0.0.1:9967'', Others = 0\<rparr>)"
  using Apply_transport_whole_struct [of ex_heap 0 6]
  by (simp add: ex_heap_def ex_default_def Config_zero_def transport_Config_zero_def
        reflect_DeepEqual_def)

text \<open>
  C3. \<open>Apply\<close> is idempotent: applying a source, nil or not, to the heap that applying it
  once has left returns that same heap. The source may be the destination itself.
\<close>

theorem Apply_idempotent:
  "\<exists>h1. Apply h (Some c) cfg = Inr h1 \<and> Apply h1 (Some c) cfg = Inr h1"
proof (cases cfg)
  case None
  then show ?thesis by (simp add: Apply_nil)
next
  case (Some s)
  let ?h1 = "assign c (\<lambda>d. merge d (cells h s)) h"
  have "Apply ?h1 (Some c) (Some s) = Inr (assign c (\<lambda>d. merge d (cells h s)) ?h1)"
    by (simp only: Apply_refines_merge Apply_source_kept)
  also have "\<dots> = Inr ?h1"
    by (simp add: assign_assign merge_idem)
  finally show ?thesis
    using Some by (simp add: Apply_refines_merge)
qed

text \<open>
  C4. A nil source leaves the heap as it is, and so does a source whose every field is
  zero for its type.
\<close>

theorem Apply_nil_and_zero_identity:
  "Apply h (Some c) None = Inr h \<and>
   (cells h s = Config_zero \<longrightarrow> Apply h (Some c) (Some s) = Inr h)"
  by (simp add: Apply_nil Apply_refines_merge merge_zero assign_id)

text \<open>The all-zero source of cell 7, applied to the default configuration.\<close>

theorem Apply_nil_and_zero_identity_witness:
  "Apply ex_heap (Some 0) None = Inr ex_heap \<and>
   cells ex_heap 7 = Config_zero \<and> cells ex_heap 0 \<noteq> Config_zero \<and>
   Apply ex_heap (Some 0) (Some 7) = Inr ex_heap"
proof -
  have z: "cells ex_heap 7 = Config_zero"
    by (simp add: ex_heap_def)
  have "cells ex_heap 0 \<noteq> Config_zero"
    by (simp add: ex_heap_def ex_default_def Config_zero_def)
  with z Apply_nil_and_zero_identity [of ex_heap 0 7] show ?thesis
    by simp
qed

text \<open>
  C5. \<open>GetDefaultConfig\<close> returns, on every heap, a pointer to a fresh cell that holds
  the same fixed values: lease 5, journals directory \<^verbatim>\<open>/opt/logrange/db/\<close>, the public
  listen address \<^verbatim>\<open>127.0.0.1:9966\<close>, the private one \<^verbatim>\<open>127.0.0.1:9967\<close>, host id 0 and
  register timeout 0. A second call returns another cell, field for field the same.
\<close>

theorem GetDefaultConfig_fixed_values:
  "\<exists>h1. GetDefaultConfig h = (Some (next_free h), h1) \<and>
     cells h1 (next_free h) =
       \<lparr>JournalsDir = ''/opt/logrange/db/'', HostHostId = 0, HostLeaseTTLSec = 5,
        HostRegisterTimeoutSec = 0,
        PublicApiRpc = \<lparr>ListenAddr = ''127.0.0.1:9966'', Others = 0\<rparr>,
        PrivateApiRpc = \<lparr>ListenAddr = ''127.0.0.1:9967'', Others = 0\<rparr>\<rparr> \<and>
     (\<exists>c2 h2. GetDefaultConfig h1 = (Some c2, h2) \<and> c2 \<noteq> next_free h \<and>
        cells h2 c2 = cells h2 (next_free h) \<and> cells h2 (next_free h) = cells h1 (next_free h))"
  by (simp add: GetDefaultConfig_eq)

text \<open>
  C6. The claim holds of the empty path and of a path whose directory has no such entry.
  It fails for a path that names nothing because a component of its prefix is a regular
  file: \<^verbatim>\<open>os.Stat\<close> fails with \<^verbatim>\<open>ENOTDIR\<close>, \<^verbatim>\<open>os.IsNotExist\<close> does not hold of that error,
  and the loader goes on to \<^verbatim>\<open>ioutil.ReadFile\<close>, logs at fatal level and panics. The doc
  comment of \<^verbatim>\<open>ReadConfigFromFile\<close> has it return nil when the file is not found, and
  panic only when the file exists. In the file system \<open>ex_fs\<close> neither \<^verbatim>\<open>missing.json\<close>
  nor \<^verbatim>\<open>broken.json/child\<close> exists; the loader returns nil for the first and panics for
  the second.
\<close>

theorem ReadConfigFromFile_panics_on_absent_path:
  "\<not> path_exists ex_fs ''missing.json'' \<and>
   ReadConfigFromFile (os_env ex_fs (json_Unmarshal ex_env)) ''missing.json'' ex_heap =
     (Inr None,
      [Stat ''missing.json'',
       Warn [Str ''There is no file '', Str ''missing.json'',
             Str '' for reading logrange config, will use default configuration.'']],
      ex_heap) \<and>
   \<not> path_exists ex_fs ''broken.json/child'' \<and>
   ReadConfigFromFile (os_env ex_fs (json_Unmarshal ex_env)) ''broken.json/child'' ex_heap =
     (Inl (Wrapf (PathError ''open'' ''broken.json/child'' ENOTDIR)
             ''Could not read data from config file broken.json/child''),
      [Stat ''broken.json/child'', ReadFile ''broken.json/child'',
       Fatal [Str ''Could not read configuration file '', Str ''broken.json/child'', Str '': '',
              Err (PathError ''open'' ''broken.json/child'' ENOTDIR)]],
      ex_heap)"
proof -
  have a: "ex_fs ''missing.json'' = NoEntry"
    and b: "ex_fs ''broken.json/child'' = UnderNonDirectory"
    by (simp_all add: ex_fs_def)
  show ?thesis
    using
      ReadConfigFromFile_os_env(1)
        [where fs = ex_fs and filename = "''missing.json''" and dec = "json_Unmarshal ex_env"
           and h = ex_heap]
      ReadConfigFromFile_os_env(2)
        [where fs = ex_fs and filename = "''broken.json/child''" and dec = "json_Unmarshal ex_env"
           and h = ex_heap]
    by (simp add: path_exists_def a b)
qed

text \<open>
  C7. For a non-empty path that \<^verbatim>\<open>os.Stat\<close> does not report as not existing:
  when \<^verbatim>\<open>ioutil.ReadFile\<close> returns an error, and when it returns the bytes and
  \<^verbatim>\<open>json.Unmarshal\<close> returns an error, \<open>ReadConfigFromFile\<close> panics. It returns neither a
  \<open>Config\<close> nor nil. The panic value wraps that same error and a message that ends with
  the path.
\<close>

theorem ReadConfigFromFile_fatal:
  "(filename \<noteq> [] \<and> \<not> os_IsNotExist env (os_Stat env filename) \<and>
    ioutil_ReadFile env filename = (cfgData, Some e) \<longrightarrow>
      fst (ReadConfigFromFile env filename h) =
        Inl (Wrapf e (''Could not read data from config file '' @ filename))) \<and>
   (filename \<noteq> [] \<and> \<not> os_IsNotExist env (os_Stat env filename) \<and>
    ioutil_ReadFile env filename = (cfgData, None) \<and>
    snd (json_Unmarshal env cfgData Config_zero) = Some e \<longrightarrow>
      fst (ReadConfigFromFile env filename h) =
        Inl (Wrapf e (''Could not unmarshal json data from config file '' @ filename)))"
  by (auto simp add: ReadConfigFromFile_def new_Config_def Let_def split: prod.splits)

theorem ReadConfigFromFile_fatal_witness:
  "''locked.json'' \<noteq> [] \<and> \<not> os_IsNotExist ex_env (os_Stat ex_env ''locked.json'') \<and>
   ioutil_ReadFile ex_env ''locked.json''
     = ([], Some (ErrorString ''open locked.json: permission denied'')) \<and>
   fst (ReadConfigFromFile ex_env ''locked.json'' ex_heap) =
     Inl (Wrapf (ErrorString ''open locked.json: permission denied'')
            ''Could not read data from config file locked.json'') \<and>
   ''broken.json'' \<noteq> [] \<and> \<not> os_IsNotExist ex_env (os_Stat ex_env ''broken.json'') \<and>
   ioutil_ReadFile ex_env ''broken.json'' = ([123], None) \<and>
   snd (json_Unmarshal ex_env [123] (Config_zero :: nat Config))
     = Some (ErrorString ''unexpected end of JSON input'') \<and>
   fst (ReadConfigFromFile ex_env ''broken.json'' ex_heap) =
     Inl (Wrapf (ErrorString ''unexpected end of JSON input'')
            ''Could not unmarshal json data from config file broken.json'')"
proof -
  have a: "\<not> os_IsNotExist ex_env (os_Stat ex_env ''locked.json'')"
    and b: "ioutil_ReadFile ex_env ''locked.json''
              = ([], Some (ErrorString ''open locked.json: permission denied''))"
    and c: "\<not> os_IsNotExist ex_env (os_Stat ex_env ''broken.json'')"
    and d: "ioutil_ReadFile ex_env ''broken.json'' = ([123], None)"
    and e: "snd (json_Unmarshal ex_env [123] (Config_zero :: nat Config))
              = Some (ErrorString ''unexpected end of JSON input'')"
    by (simp_all add: ex_env_def)
  from a b c d e
    ReadConfigFromFile_fatal [of "''locked.json''" ex_env "[]"
      "ErrorString ''open locked.json: permission denied''" ex_heap]
    ReadConfigFromFile_fatal [of "''broken.json''" ex_env "[123]"
      "ErrorString ''unexpected end of JSON input''" ex_heap]
  show ?thesis by simp
qed

text \<open>
  C8. \<open>Localhost\<close> returns the descriptor whose \<open>RpcAddr\<close> is the listen address of
  \<open>PrivateApiRpc\<close>; where the public listen address differs, it is not the one returned.
\<close>

theorem Localhost_private_address:
  "Localhost h (Some c) = Inr \<lparr>RpcAddr = ListenAddr (PrivateApiRpc (cells h c))\<rparr> \<and>
   (ListenAddr (PrivateApiRpc (cells h c)) \<noteq> ListenAddr (PublicApiRpc (cells h c)) \<longrightarrow>
      Localhost h (Some c) \<noteq> Inr \<lparr>RpcAddr = ListenAddr (PublicApiRpc (cells h c))\<rparr>)"
  by (simp add: Localhost_def load_def)

theorem Localhost_private_address_witness:
  "ListenAddr (PrivateApiRpc (cells ex_heap 8)) = ''10.0.0.1:9967'' \<and>
   ListenAddr (PublicApiRpc (cells ex_heap 8)) = ''10.0.0.1:9966'' \<and>
   Localhost ex_heap (Some 8) = Inr \<lparr>RpcAddr = ''10.0.0.1:9967''\<rparr> \<and>
   Localhost ex_heap (Some 8) \<noteq> Inr \<lparr>RpcAddr = ''10.0.0.1:9966''\<rparr>"
proof -
  have a: "ListenAddr (PrivateApiRpc (cells ex_heap 8)) = ''10.0.0.1:9967''"
    and b: "ListenAddr (PublicApiRpc (cells ex_heap 8)) = ''10.0.0.1:9966''"
    by (simp_all add: ex_heap_def Config_zero_def)
  with Localhost_private_address [of ex_heap 8] show ?thesis
    by simp
qed

text \<open>
  C9, as amended. \<open>HostId\<close> returns \<open>HostHostId\<close> as it is. \<open>LeaseTTL\<close> and
  \<open>RegisterTimeout\<close> return the 64-bit product of the seconds with \<^verbatim>\<open>time.Second\<close>;
  that duration is the given number of seconds exactly when the seconds lie between
  -9223372036 and 9223372036, and 0 seconds give the zero duration. Beyond that range
  the product wraps.
\<close>

theorem accessors_return_fields:
  "HostId h (Some c) = Inr (HostHostId (cells h c)) \<and>
   LeaseTTL h (Some c) = Inr (HostLeaseTTLSec (cells h c) * time_Second) \<and>
   RegisterTimeout h (Some c) = Inr (HostRegisterTimeoutSec (cells h c) * time_Second) \<and>
   ((\<exists>t. LeaseTTL h (Some c) = Inr t \<and>
          sint t = sint (HostLeaseTTLSec (cells h c)) * 1000000000)
      \<longleftrightarrow> - 9223372036 \<le> sint (HostLeaseTTLSec (cells h c)) \<and>
          sint (HostLeaseTTLSec (cells h c)) \<le> 9223372036) \<and>
   ((\<exists>t. RegisterTimeout h (Some c) = Inr t \<and>
          sint t = sint (HostRegisterTimeoutSec (cells h c)) * 1000000000)
      \<longleftrightarrow> - 9223372036 \<le> sint (HostRegisterTimeoutSec (cells h c)) \<and>
          sint (HostRegisterTimeoutSec (cells h c)) \<le> 9223372036) \<and>
   (HostRegisterTimeoutSec (cells h c) = 0 \<longrightarrow> RegisterTimeout h (Some c) = Inr 0)"
  by (simp add: HostId_def LeaseTTL_def RegisterTimeout_def load_def sint_seconds)

theorem accessors_return_fields_witness:
  "HostId ex_heap (Some 2) = Inr 7 \<and>
   LeaseTTL ex_heap (Some 0) = Inr 5000000000 \<and>
   HostRegisterTimeoutSec (cells ex_heap 0) = 0 \<and>
   RegisterTimeout ex_heap (Some 0) = Inr 0 \<and>
   sint (HostLeaseTTLSec (cells ex_heap 3)) = 30 \<and>
   (\<exists>t. LeaseTTL ex_heap (Some 3) = Inr t \<and> sint t = 30 * 1000000000)"
proof -
  have a: "HostRegisterTimeoutSec (cells ex_heap 0) = 0"
    and b: "HostLeaseTTLSec (cells ex_heap 3) = 30"
    and c: "HostHostId (cells ex_heap 2) = 7"
    and d: "HostLeaseTTLSec (cells ex_heap 0) = 5"
    by (simp_all add: ex_heap_def ex_default_def Config_zero_def)
  from a b c d
    accessors_return_fields [of ex_heap 2]
    accessors_return_fields [of ex_heap 0]
    accessors_return_fields [of ex_heap 3]
  show ?thesis by (simp add: time_Second_def)
qed

text \<open>
  The claim as written fails at the configuration of cell 9: its lease is 9223372037
  seconds, and \<open>LeaseTTL\<close> returns a negative duration, not 9223372037000000000
  nanoseconds.
\<close>

theorem accessors_return_fields_counterexample:
  "sint (HostLeaseTTLSec (cells ex_heap 9)) = 9223372037 \<and>
   LeaseTTL ex_heap (Some 9) = Inr (- 9223372036709551616) \<and>
   sint (- 9223372036709551616 :: time_Duration) = - 9223372036709551616 \<and>
   sint (- 9223372036709551616 :: time_Duration) \<noteq> 9223372037 * 1000000000"
  by (simp add: LeaseTTL_def load_def time_Second_def ex_heap_def Config_zero_def)

text \<open>
  C10. \<open>Apply\<close> never changes its source: in the heap it returns, the cell the source
  points to holds what it held before, also when source and destination are one cell.
\<close>

theorem Apply_keeps_source:
  "\<exists>h'. Apply h (Some c) (Some s) = Inr h' \<and> cells h' s = cells h s"
  by (simp add: Apply_refines_merge Apply_source_kept)

end
